theory Spec2Isabelle
  imports Main
begin

section \<open>The browser environment of the theme resolver\<close>

text \<open>
  The theme code lives in the post \<^verbatim>\<open>src/content/blog/the-perfect-dark-mode.mdx\<close>:
  the blocking script \<^verbatim>\<open>setInitialColorMode\<close> of \<^verbatim>\<open>pages/_document.js\<close> and the
  component \<^verbatim>\<open>IndexPage\<close> of \<^verbatim>\<open>pages/index.js\<close>. It talks to three browser
  objects: \<^verbatim>\<open>window.localStorage\<close>, \<^verbatim>\<open>window.matchMedia\<close> and
  \<^verbatim>\<open>document.documentElement\<close>. They are modelled by what the code observes of them.
\<close>

subsection \<open>JavaScript values\<close>

datatype js_value = JUndefined | JNull | JBool bool | JNumber int | JString string

fun typeof :: "js_value \<Rightarrow> string" where
  "typeof JUndefined = ''undefined''"
| "typeof JNull = ''object''"
| "typeof (JBool b) = ''boolean''"
| "typeof (JNumber n) = ''number''"
| "typeof (JString s) = ''string''"

text \<open>The condition of \<^verbatim>\<open>c ? a : b\<close>.\<close>

fun truthy :: "js_value \<Rightarrow> bool" where
  "truthy JUndefined = False"
| "truthy JNull = False"
| "truthy (JBool b) = b"
| "truthy (JNumber n) = (n \<noteq> 0)"
| "truthy (JString s) = (s \<noteq> [])"

subsection \<open>Exceptions\<close>

text \<open>
  The source has no \<^verbatim>\<open>try\<close>: an exception thrown by a browser call ends the function
  that made the call and reaches its caller.
\<close>

datatype exn = StoreUnavailable | SignalUnavailable

subsection \<open>The durable store\<close>

text \<open>
  \<^verbatim>\<open>window.localStorage\<close> is either unusable (every access throws) or holds a
  key-value map of strings.
\<close>

datatype storage = Unavailable | Available "string \<rightharpoonup> string"

text \<open>\<^verbatim>\<open>localStorage.getItem(key)\<close>: the stored string, or \<^verbatim>\<open>null\<close> (here \<open>None\<close>).\<close>

fun getItem :: "storage \<Rightarrow> string \<Rightarrow> exn + string option" where
  "getItem Unavailable key = Inl StoreUnavailable"
| "getItem (Available m) key = Inr (m key)"

text \<open>\<^verbatim>\<open>localStorage.setItem(key, value)\<close>.\<close>

fun setItem :: "storage \<Rightarrow> string \<Rightarrow> string \<Rightarrow> exn + storage" where
  "setItem Unavailable key val = Inl StoreUnavailable"
| "setItem (Available m) key val = Inr (Available (m(key \<mapsto> val)))"

subsection \<open>The system signal\<close>

text \<open>
  \<^verbatim>\<open>window.matchMedia(query)\<close> throws, or returns an object whose \<^verbatim>\<open>matches\<close>
  property is some JavaScript value (a boolean on the platforms that support the query).
\<close>

record media_query_list =
  matches :: js_value

datatype signal = QueryThrows | QueryReturns media_query_list

fun matchMedia :: "signal \<Rightarrow> string \<Rightarrow> exn + media_query_list" where
  "matchMedia QueryThrows mediaQuery = Inl SignalUnavailable"
| "matchMedia (QueryReturns mql) mediaQuery = Inr mql"

subsection \<open>The page\<close>

text \<open>
  The mutable state the code touches: the store, the custom properties of
  \<^verbatim>\<open>document.documentElement.style\<close>, the attributes of
  \<^verbatim>\<open>document.documentElement\<close>, and the component's state variable
  \<^verbatim>\<open>darkTheme\<close> (\<open>None\<close> is \<^verbatim>\<open>undefined\<close>).
\<close>

record page =
  localStorage :: storage
  style :: "string \<rightharpoonup> string"
  attributes :: "string \<rightharpoonup> string"
  darkTheme :: "bool option"

definition setProperty :: "string \<Rightarrow> string \<Rightarrow> page \<Rightarrow> page" where
  "setProperty name val p = p\<lparr>style := (style p)(name \<mapsto> val)\<rparr>"

text \<open>\<^verbatim>\<open>getPropertyValue\<close> answers the empty string for a property that is not set.\<close>

definition getPropertyValue :: "string \<Rightarrow> page \<Rightarrow> string" where
  "getPropertyValue name p = (case style p name of None \<Rightarrow> [] | Some v \<Rightarrow> v)"

definition setAttribute :: "string \<Rightarrow> string \<Rightarrow> page \<Rightarrow> page" where
  "setAttribute name val p = p\<lparr>attributes := (attributes p)(name \<mapsto> val)\<rparr>"

definition removeAttribute :: "string \<Rightarrow> page \<Rightarrow> page" where
  "removeAttribute name p = p\<lparr>attributes := (attributes p)(name := None)\<rparr>"

text \<open>
  The document a page load starts from: \<^verbatim>\<open>MyDocument.render\<close> gives \<^verbatim>\<open><Html>\<close> no
  attribute and no inline style, and \<^verbatim>\<open>useState(undefined)\<close> starts the component.
\<close>

definition freshPage :: "storage \<Rightarrow> page" where
  "freshPage store =
     \<lparr>localStorage = store, style = Map.empty, attributes = Map.empty, darkTheme = None\<rparr>"

section \<open>The blocking script\<close>

text \<open>
  \<^verbatim>\<open>getInitialColorMode\<close> (lines 485-508). \<^verbatim>\<open>typeof preference === "string"\<close> holds
  exactly when \<^verbatim>\<open>getItem\<close> did not answer \<^verbatim>\<open>null\<close>. The media query is run only
  after that test has failed.
\<close>

definition getInitialColorMode :: "storage \<Rightarrow> signal \<Rightarrow> exn + string" where
  "getInitialColorMode store sig =
     (case getItem store ''theme'' of
        Inl e \<Rightarrow> Inl e
      | Inr preference \<Rightarrow>
          (case preference of
             Some s \<Rightarrow> Inr s
           | None \<Rightarrow>
               (case matchMedia sig ''(prefers-color-scheme: dark)'' of
                  Inl e \<Rightarrow> Inl e
                | Inr mql \<Rightarrow>
                    if typeof (matches mql) = ''boolean''
                    then Inr (if truthy (matches mql) then ''dark'' else ''light'')
                    else Inr ''light'')))"

text \<open>
  \<^verbatim>\<open>setInitialColorMode\<close> (lines 484-517). The first component of the result is the
  exception that ended the call, if any; the second is the page it leaves.
\<close>

definition setInitialColorMode :: "signal \<Rightarrow> page \<Rightarrow> exn option \<times> page" where
  "setInitialColorMode sig p =
     (case getInitialColorMode (localStorage p) sig of
        Inl e \<Rightarrow> (Some e, p)
      | Inr colorMode \<Rightarrow>
          (let p1 = setProperty ''--initial-color-mode'' colorMode p
           in (None, if colorMode = ''dark''
                     then setAttribute ''data-theme'' ''dark'' p1
                     else p1)))"

section \<open>The component\<close>

text \<open>\<^verbatim>\<open>storeUserSetPreference\<close> (lines 594-596).\<close>

definition storeUserSetPreference :: "string \<Rightarrow> page \<Rightarrow> exn option \<times> page" where
  "storeUserSetPreference pref p =
     (case setItem (localStorage p) ''theme'' pref of
        Inl e \<Rightarrow> (Some e, p)
      | Inr store \<Rightarrow> (None, p\<lparr>localStorage := store\<rparr>))"

text \<open>The body of the effect with dependencies \<^verbatim>\<open>[darkTheme]\<close> (lines 605-615).\<close>

definition darkThemeEffect :: "page \<Rightarrow> exn option \<times> page" where
  "darkThemeEffect p =
     (case darkTheme p of
        None \<Rightarrow> (None, p)
      | Some b \<Rightarrow>
          if b
          then storeUserSetPreference ''dark'' (setAttribute ''data-theme'' ''dark'' p)
          else storeUserSetPreference ''light'' (removeAttribute ''data-theme'' p))"

text \<open>
  \<^verbatim>\<open>setDarkTheme(b)\<close>: the state variable takes the value \<open>b\<close> and the component renders
  again; the effect above has \<^verbatim>\<open>[darkTheme]\<close> as its dependencies, so it runs after
  that render when the value has changed, and not when it is the same.
\<close>

definition setDarkTheme :: "bool \<Rightarrow> page \<Rightarrow> exn option \<times> page" where
  "setDarkTheme b p =
     (if darkTheme p = Some b then (None, p)
      else darkThemeEffect (p\<lparr>darkTheme := Some b\<rparr>))"

text \<open>\<^verbatim>\<open>handleToggle\<close> (lines 591-593), with \<open>checked\<close> for \<^verbatim>\<open>event.target.checked\<close>.\<close>

definition handleToggle :: "bool \<Rightarrow> page \<Rightarrow> exn option \<times> page" where
  "handleToggle checked p = setDarkTheme checked p"

text \<open>
  Mounting the component (lines 589, 598-615): the state starts \<^verbatim>\<open>undefined\<close>; after
  the first render both effects run in the order they are written, the first one
  reading \<^verbatim>\<open>--initial-color-mode\<close> and calling \<^verbatim>\<open>setDarkTheme\<close>, whose update
  takes effect with the next render, the second one still seeing \<^verbatim>\<open>undefined\<close>.
\<close>

definition hydrate :: "page \<Rightarrow> exn option \<times> page" where
  "hydrate p =
     (let p0 = p\<lparr>darkTheme := None\<rparr>;
          initialColorValue = getPropertyValue ''--initial-color-mode'' p0
      in case darkThemeEffect p0 of
           (Some e, p1) \<Rightarrow> (Some e, p1)
         | (None, p1) \<Rightarrow> setDarkTheme (initialColorValue = ''dark'') p1)"

text \<open>The token the effect stores for a value of the checkbox.\<close>

definition modeName :: "bool \<Rightarrow> string" where
  "modeName b = (if b then ''dark'' else ''light'')"

text \<open>
  A visit: the blocking script runs on the fresh document, the component mounts, and
  the visitor then uses the checkbox any number of times. An exception ends the call
  that raised it and leaves the page as that call left it.
\<close>

fun toggles :: "bool list \<Rightarrow> page \<Rightarrow> page" where
  "toggles [] p = p"
| "toggles (b # bs) p = toggles bs (snd (handleToggle b p))"

definition visit :: "signal \<Rightarrow> storage \<Rightarrow> bool list \<Rightarrow> page" where
  "visit sig store bs =
     toggles bs (snd (hydrate (snd (setInitialColorMode sig (freshPage store)))))"

text \<open>
  The state variable and the store agree: the store is usable and holds, under
  \<open>theme\<close>, the token of the current value of \<^verbatim>\<open>darkTheme\<close>.
\<close>

definition persisted :: "page \<Rightarrow> bool" where
  "persisted p =
     (case (localStorage p, darkTheme p) of
        (Available m, Some d) \<Rightarrow> m ''theme'' = Some (modeName d)
      | _ \<Rightarrow> False)"

text \<open>
  The state variable and the document agree: once \<^verbatim>\<open>darkTheme\<close> has a value, the
  attribute \<open>data-theme\<close> is \<open>dark\<close> when it is true and is absent when it is false.
\<close>

definition attributeAgrees :: "page \<Rightarrow> bool" where
  "attributeAgrees p =
     (case darkTheme p of
        None \<Rightarrow> True
      | Some d \<Rightarrow> attributes p ''data-theme'' = (if d then Some ''dark'' else None))"

section \<open>Resolution\<close>

text \<open>
  C3. Whenever the store holds \<open>light\<close> or \<open>dark\<close> under the key \<open>theme\<close>, the resolved
  mode is that value, whatever the system signal is, also when the query would throw.
\<close>

theorem explicit_preference_wins:
  "v \<in> {''light'', ''dark''} \<Longrightarrow> m ''theme'' = Some v \<Longrightarrow>
     getInitialColorMode (Available m) sig = Inr v"
  by (simp add: getInitialColorMode_def)

theorem explicit_preference_wins_witness:
  "''dark'' \<in> {''light'', ''dark''} \<and> [''theme'' \<mapsto> ''dark''] ''theme'' = Some ''dark'' \<and>
     getInitialColorMode (Available [''theme'' \<mapsto> ''dark''])
       (QueryReturns \<lparr>matches = JBool False\<rparr>) = Inr ''dark''"
  using explicit_preference_wins [of "''dark''" "[''theme'' \<mapsto> ''dark'']"
      "QueryReturns \<lparr>matches = JBool False\<rparr>"]
  by simp

text \<open>
  C4. When the store holds nothing under \<open>theme\<close> and the query answers, the resolved
  mode is \<open>dark\<close> exactly when \<open>matches\<close> is \<open>true\<close>, it is \<open>light\<close> when \<open>matches\<close> is
  \<open>false\<close>, and it is the default \<open>light\<close> when \<open>matches\<close> is not a boolean.
\<close>

theorem system_signal_decides:
  "m ''theme'' = None \<Longrightarrow>
     (getInitialColorMode (Available m) (QueryReturns q) = Inr ''dark''
        \<longleftrightarrow> matches q = JBool True) \<and>
     (matches q = JBool False
        \<longrightarrow> getInitialColorMode (Available m) (QueryReturns q) = Inr ''light'') \<and>
     (typeof (matches q) \<noteq> ''boolean''
        \<longrightarrow> getInitialColorMode (Available m) (QueryReturns q) = Inr ''light'')"
  by (cases "matches q") (auto simp: getInitialColorMode_def)

theorem system_signal_decides_witness:
  "Map.empty ''theme'' = None \<and>
     getInitialColorMode (Available Map.empty) (QueryReturns \<lparr>matches = JBool True\<rparr>)
       = Inr ''dark'' \<and>
     getInitialColorMode (Available Map.empty) (QueryReturns \<lparr>matches = JBool False\<rparr>)
       = Inr ''light'' \<and>
     getInitialColorMode (Available Map.empty) (QueryReturns \<lparr>matches = JUndefined\<rparr>)
       = Inr ''light''"
  using system_signal_decides [of Map.empty "\<lparr>matches = JBool True\<rparr>"]
    system_signal_decides [of Map.empty "\<lparr>matches = JBool False\<rparr>"]
    system_signal_decides [of Map.empty "\<lparr>matches = JUndefined\<rparr>"]
  by simp

text \<open>
  C1, as stated, fails: a stored string that is neither token is returned as it is.
\<close>

theorem stored_value_not_validated:
  "getInitialColorMode (Available [''theme'' \<mapsto> ''batman''])
     (QueryReturns \<lparr>matches = JBool False\<rparr>) \<notin> {Inr ''light'', Inr ''dark''}"
  by (simp add: getInitialColorMode_def)

text \<open>
  C1, amended. The stored value is used whenever there is one, whatever string it is.
  When the store holds nothing or one of the two tokens under \<open>theme\<close>, and the query
  answers in case it is made, resolution returns \<open>light\<close> or \<open>dark\<close>.
\<close>

theorem resolve_result:
  "(m ''theme'' = Some v \<longrightarrow> getInitialColorMode (Available m) sig = Inr v) \<and>
   (m ''theme'' \<in> {None, Some ''light'', Some ''dark''} \<longrightarrow>
      (m ''theme'' = None \<longrightarrow> sig \<noteq> QueryThrows) \<longrightarrow>
      getInitialColorMode (Available m) sig \<in> {Inr ''light'', Inr ''dark''})"
  by (cases sig) (auto simp: getInitialColorMode_def)

theorem resolve_result_witness:
  "[''theme'' \<mapsto> ''batman''] ''theme'' = Some ''batman'' \<and>
   getInitialColorMode (Available [''theme'' \<mapsto> ''batman'']) QueryThrows = Inr ''batman'' \<and>
   Map.empty ''theme'' \<in> {None, Some ''light'', Some ''dark''} \<and>
   QueryReturns \<lparr>matches = JBool True\<rparr> \<noteq> QueryThrows \<and>
   getInitialColorMode (Available Map.empty) (QueryReturns \<lparr>matches = JBool True\<rparr>)
     \<in> {Inr ''light'', Inr ''dark''}"
  using resolve_result [of "[''theme'' \<mapsto> ''batman'']" "''batman''" QueryThrows]
    resolve_result [of Map.empty "''light''" "QueryReturns \<lparr>matches = JBool True\<rparr>"]
  by simp

section \<open>Failures of the environment\<close>

text \<open>
  C2, as stated, fails: with an unusable store resolution ends with the store's
  exception instead of returning \<open>light\<close>, and so does the toggle.
\<close>

theorem unavailable_store_raises:
  "getInitialColorMode Unavailable (QueryReturns \<lparr>matches = JBool False\<rparr>) \<noteq> Inr ''light'' \<and>
   fst (handleToggle True (freshPage Unavailable)) = Some StoreUnavailable"
  by (simp add: getInitialColorMode_def handleToggle_def setDarkTheme_def darkThemeEffect_def
      storeUserSetPreference_def setAttribute_def freshPage_def)

text \<open>
  C2, amended. Nothing is caught. With an unusable store, resolution ends with the
  store's exception. With a usable store that holds nothing under \<open>theme\<close>, a query that
  throws ends resolution with the query's exception, and a query whose \<open>matches\<close> is not
  a boolean gives the default \<open>light\<close>. A toggle that changes the value on an unusable
  store updates the attribute and the state variable and then ends with the store's
  exception, the store being left as it was.
\<close>

theorem failures_propagate:
  "getInitialColorMode Unavailable sig = Inl StoreUnavailable \<and>
   (m ''theme'' = None \<longrightarrow>
      getInitialColorMode (Available m) QueryThrows = Inl SignalUnavailable) \<and>
   (m ''theme'' = None \<longrightarrow> typeof (matches q) \<noteq> ''boolean'' \<longrightarrow>
      getInitialColorMode (Available m) (QueryReturns q) = Inr ''light'') \<and>
   (localStorage p = Unavailable \<longrightarrow> darkTheme p \<noteq> Some b \<longrightarrow>
      handleToggle b p =
        (Some StoreUnavailable,
         p\<lparr>attributes := (attributes p)(''data-theme'' := if b then Some ''dark'' else None),
           darkTheme := Some b\<rparr>))"
  by (auto simp: getInitialColorMode_def handleToggle_def setDarkTheme_def darkThemeEffect_def
      storeUserSetPreference_def setAttribute_def removeAttribute_def)

theorem failures_propagate_witness:
  "getInitialColorMode Unavailable QueryThrows = Inl StoreUnavailable \<and>
   Map.empty ''theme'' = None \<and>
   getInitialColorMode (Available Map.empty) QueryThrows = Inl SignalUnavailable \<and>
   typeof (matches \<lparr>matches = JUndefined\<rparr>) \<noteq> ''boolean'' \<and>
   getInitialColorMode (Available Map.empty) (QueryReturns \<lparr>matches = JUndefined\<rparr>)
     = Inr ''light'' \<and>
   localStorage (freshPage Unavailable) = Unavailable \<and>
   darkTheme (freshPage Unavailable) \<noteq> Some True \<and>
   handleToggle True (freshPage Unavailable) =
     (Some StoreUnavailable,
      \<lparr>localStorage = Unavailable, style = Map.empty,
       attributes = [''data-theme'' \<mapsto> ''dark''], darkTheme = Some True\<rparr>)"
  using failures_propagate [of QueryThrows Map.empty "\<lparr>matches = JUndefined\<rparr>"
      "freshPage Unavailable" True]
  by (simp add: freshPage_def)

section \<open>The toggle\<close>

lemma darkTheme_setDarkTheme: "darkTheme (snd (setDarkTheme b p)) = Some b"
  by (cases "localStorage p")
    (simp_all add: setDarkTheme_def darkThemeEffect_def storeUserSetPreference_def
      setAttribute_def removeAttribute_def)

lemma localStorage_setDarkTheme:
  "localStorage (snd (setDarkTheme b p)) =
     (if darkTheme p = Some b then localStorage p
      else case localStorage p of
             Unavailable \<Rightarrow> Unavailable
           | Available m \<Rightarrow> Available (m(''theme'' \<mapsto> modeName b)))"
  by (cases "localStorage p")
    (simp_all add: setDarkTheme_def darkThemeEffect_def storeUserSetPreference_def
      setAttribute_def removeAttribute_def modeName_def)

lemma attributes_setDarkTheme:
  "darkTheme p \<noteq> Some b \<Longrightarrow>
     attributes (snd (setDarkTheme b p)) =
       (attributes p)(''data-theme'' := if b then Some ''dark'' else None)"
  by (cases "localStorage p")
    (simp_all add: setDarkTheme_def darkThemeEffect_def storeUserSetPreference_def
      setAttribute_def removeAttribute_def)

lemma persisted_handleToggle: "persisted p \<Longrightarrow> persisted (snd (handleToggle b p))"
proof -
  assume a: "persisted p"
  then obtain m d where p: "localStorage p = Available m" "darkTheme p = Some d"
      "m ''theme'' = Some (modeName d)"
    by (auto simp: persisted_def split: storage.splits option.splits)
  show ?thesis
  proof (cases "d = b")
    case True
    with a p show ?thesis by (simp add: handleToggle_def setDarkTheme_def)
  next
    case False
    with p show ?thesis
      by (simp add: persisted_def handleToggle_def localStorage_setDarkTheme
          darkTheme_setDarkTheme)
  qed
qed

lemma persisted_toggles: "persisted p \<Longrightarrow> persisted (toggles bs p)"
  by (induction bs arbitrary: p) (simp_all add: persisted_handleToggle)

lemma localStorage_setInitialColorMode:
  "localStorage (snd (setInitialColorMode sig p)) = localStorage p"
  by (simp add: setInitialColorMode_def setProperty_def setAttribute_def Let_def
      split: sum.splits)

lemma getPropertyValue_darkTheme:
  "getPropertyValue name (p\<lparr>darkTheme := d\<rparr>) = getPropertyValue name p"
  by (simp add: getPropertyValue_def)

lemma localStorage_hydrate:
  "localStorage (snd (hydrate p)) =
     (case localStorage p of
        Unavailable \<Rightarrow> Unavailable
      | Available m \<Rightarrow>
          Available (m(''theme'' \<mapsto>
            modeName (getPropertyValue ''--initial-color-mode'' p = ''dark''))))"
  by (simp add: hydrate_def darkThemeEffect_def localStorage_setDarkTheme
      getPropertyValue_darkTheme)

lemma darkTheme_hydrate:
  "darkTheme (snd (hydrate p)) = Some (getPropertyValue ''--initial-color-mode'' p = ''dark'')"
  by (simp add: hydrate_def darkThemeEffect_def darkTheme_setDarkTheme
      getPropertyValue_darkTheme)

lemma persisted_hydrate: "localStorage p = Available m \<Longrightarrow> persisted (snd (hydrate p))"
  by (simp add: persisted_def localStorage_hydrate darkTheme_hydrate)

lemma persisted_visit: "persisted (visit sig (Available m) bs)"
  unfolding visit_def
  by (rule persisted_toggles, rule persisted_hydrate [where m = m])
    (simp add: localStorage_setInitialColorMode freshPage_def)

text \<open>
  C5. On a usable store, a toggle to \<open>b\<close> followed by resolution gives the token of \<open>b\<close>,
  whatever the store held and whatever the signal is: from any page when the toggle
  changes the value of the checkbox or the store already holds that token, and from
  every page a visit can reach.
\<close>

theorem toggle_then_resolve:
  "(localStorage p = Available m \<longrightarrow>
      darkTheme p \<noteq> Some b \<or> m ''theme'' = Some (modeName b) \<longrightarrow>
      getInitialColorMode (localStorage (snd (handleToggle b p))) sig = Inr (modeName b)) \<and>
   getInitialColorMode
     (localStorage (snd (handleToggle b (visit sig0 (Available m0) bs)))) sig
       = Inr (modeName b)"
proof
  show "localStorage p = Available m \<longrightarrow>
      darkTheme p \<noteq> Some b \<or> m ''theme'' = Some (modeName b) \<longrightarrow>
      getInitialColorMode (localStorage (snd (handleToggle b p))) sig = Inr (modeName b)"
    by (auto simp: handleToggle_def localStorage_setDarkTheme getInitialColorMode_def)
next
  let ?p = "snd (handleToggle b (visit sig0 (Available m0) bs))"
  have "persisted ?p"
    by (rule persisted_handleToggle) (rule persisted_visit)
  moreover have "darkTheme ?p = Some b"
    by (simp add: handleToggle_def darkTheme_setDarkTheme)
  ultimately obtain m' where "localStorage ?p = Available m'" "m' ''theme'' = Some (modeName b)"
    by (auto simp: persisted_def split: storage.splits)
  then show "getInitialColorMode (localStorage ?p) sig = Inr (modeName b)"
    by (simp add: getInitialColorMode_def)
qed

theorem toggle_then_resolve_witness:
  "localStorage (freshPage (Available [''theme'' \<mapsto> ''light''])) =
     Available [''theme'' \<mapsto> ''light''] \<and>
   darkTheme (freshPage (Available [''theme'' \<mapsto> ''light''])) \<noteq> Some True \<and>
   getInitialColorMode
     (localStorage (snd (handleToggle True (freshPage (Available [''theme'' \<mapsto> ''light''])))))
     (QueryReturns \<lparr>matches = JBool False\<rparr>) = Inr ''dark''"
  using toggle_then_resolve [of "freshPage (Available [''theme'' \<mapsto> ''light''])"
      "[''theme'' \<mapsto> ''light'']" True "QueryReturns \<lparr>matches = JBool False\<rparr>"]
  by (simp add: freshPage_def modeName_def)

text \<open>
  C6. A second toggle to the same value leaves the whole page (store, attributes, style
  and state variable) as the first one left it, for \<open>dark\<close> and for \<open>light\<close> and from
  every page. The body of the effect is idempotent by itself as well.
\<close>

theorem toggle_idempotent:
  "snd (handleToggle b (snd (handleToggle b p))) = snd (handleToggle b p) \<and>
   snd (darkThemeEffect (snd (darkThemeEffect p))) = snd (darkThemeEffect p)"
proof
  have "darkTheme (snd (handleToggle b p)) = Some b"
    by (simp add: handleToggle_def darkTheme_setDarkTheme)
  then show "snd (handleToggle b (snd (handleToggle b p))) = snd (handleToggle b p)"
    by (simp add: handleToggle_def setDarkTheme_def)
next
  show "snd (darkThemeEffect (snd (darkThemeEffect p))) = snd (darkThemeEffect p)"
    by (cases "localStorage p"; cases "darkTheme p")
      (simp_all add: darkThemeEffect_def storeUserSetPreference_def setAttribute_def
        removeAttribute_def)
qed

section \<open>What is written to the store\<close>

text \<open>
  C7. The claim says that a page load leaves the store as it found it. The blocking
  script does; the mount that follows it does not: on a first visit with an empty store
  and a system that prefers dark, the store holds \<open>theme = dark\<close> once the component has
  mounted, although the checkbox was never used.
\<close>

theorem first_visit_writes_store:
  "localStorage (snd (setInitialColorMode (QueryReturns \<lparr>matches = JBool True\<rparr>)
      (freshPage (Available Map.empty)))) = Available Map.empty \<and>
   localStorage (visit (QueryReturns \<lparr>matches = JBool True\<rparr>) (Available Map.empty) [])
     = Available [''theme'' \<mapsto> ''dark''] \<and>
   localStorage (visit (QueryReturns \<lparr>matches = JBool True\<rparr>) (Available Map.empty) [])
     \<noteq> Available Map.empty"
  by (simp add: visit_def hydrate_def setInitialColorMode_def getInitialColorMode_def
      freshPage_def setProperty_def getPropertyValue_def setAttribute_def
      darkThemeEffect_def setDarkTheme_def storeUserSetPreference_def)

lemma localStorage_toggles:
  "localStorage p \<in> {Available (m(''theme'' \<mapsto> ''light'')), Available (m(''theme'' \<mapsto> ''dark''))}
   \<Longrightarrow> localStorage (toggles bs p)
         \<in> {Available (m(''theme'' \<mapsto> ''light'')), Available (m(''theme'' \<mapsto> ''dark''))}"
proof (induction bs arbitrary: p)
  case Nil
  then show ?case by simp
next
  case (Cons b bs)
  from Cons.prems obtain v where v: "localStorage p = Available (m(''theme'' \<mapsto> v))"
      "v = ''light'' \<or> v = ''dark''"
    by blast
  have "localStorage (snd (handleToggle b p))
      \<in> {Available (m(''theme'' \<mapsto> ''light'')), Available (m(''theme'' \<mapsto> ''dark''))}"
  proof (cases "darkTheme p = Some b")
    case True
    then have same: "localStorage (snd (handleToggle b p)) = localStorage p"
      by (simp add: handleToggle_def localStorage_setDarkTheme)
    show ?thesis
      unfolding same by (rule Cons.prems)
  next
    case False
    with v(1) show ?thesis
      by (simp add: handleToggle_def localStorage_setDarkTheme modeName_def)
  qed
  then have "localStorage (toggles bs (snd (handleToggle b p)))
      \<in> {Available (m(''theme'' \<mapsto> ''light'')), Available (m(''theme'' \<mapsto> ''dark''))}"
    by (rule Cons.IH)
  then show ?case
    by (simp only: toggles.simps)
qed

text \<open>
  C8. The blocking script never writes the store. A toggle and the mount write nothing
  or write, under the key \<open>theme\<close> and over what was there, the token \<open>light\<close> or
  \<open>dark\<close>; every other key keeps its value. So throughout a visit the store is the one
  the visit started with, with \<open>theme\<close> bound to one of the two tokens.
\<close>

theorem store_invariant:
  "localStorage (snd (setInitialColorMode sig p)) = localStorage p \<and>
   localStorage (snd (handleToggle b p)) =
     (if darkTheme p = Some b then localStorage p
      else case localStorage p of
             Unavailable \<Rightarrow> Unavailable
           | Available m \<Rightarrow> Available (m(''theme'' \<mapsto> modeName b))) \<and>
   localStorage (snd (hydrate p)) =
     (case localStorage p of
        Unavailable \<Rightarrow> Unavailable
      | Available m \<Rightarrow>
          Available (m(''theme'' \<mapsto>
            modeName (getPropertyValue ''--initial-color-mode'' p = ''dark'')))) \<and>
   modeName b \<in> {''light'', ''dark''} \<and>
   localStorage (visit sig (Available m0) bs)
     \<in> {Available (m0(''theme'' \<mapsto> ''light'')), Available (m0(''theme'' \<mapsto> ''dark''))} \<and>
   localStorage (visit sig Unavailable bs) = Unavailable"
proof -
  have v: "localStorage (visit sig (Available m0) bs)
     \<in> {Available (m0(''theme'' \<mapsto> ''light'')), Available (m0(''theme'' \<mapsto> ''dark''))}"
    unfolding visit_def
    by (rule localStorage_toggles)
      (simp add: localStorage_hydrate localStorage_setInitialColorMode freshPage_def
        modeName_def)
  have t: "localStorage p' = Unavailable \<Longrightarrow> localStorage (toggles bs p') = Unavailable"
    for p'
    by (induction bs arbitrary: p')
      (simp_all add: handleToggle_def localStorage_setDarkTheme)
  have u: "localStorage (visit sig Unavailable bs) = Unavailable"
    unfolding visit_def
    by (rule t)
      (simp add: localStorage_hydrate localStorage_setInitialColorMode freshPage_def)
  show ?thesis
    using v u
    by (simp add: localStorage_setInitialColorMode localStorage_hydrate handleToggle_def
        localStorage_setDarkTheme)
      (simp add: modeName_def)
qed

section \<open>The attribute of the document element\<close>

lemma attributeAgrees_setDarkTheme:
  "attributeAgrees p \<Longrightarrow> attributeAgrees (snd (setDarkTheme b p))"
proof (cases "darkTheme p = Some b")
  case True
  assume "attributeAgrees p"
  with True show ?thesis by (simp add: setDarkTheme_def)
next
  case False
  then show ?thesis
    by (simp add: attributeAgrees_def darkTheme_setDarkTheme attributes_setDarkTheme)
qed

lemma attributeAgrees_toggles: "attributeAgrees p \<Longrightarrow> attributeAgrees (toggles bs p)"
  by (induction bs arbitrary: p) (simp_all add: handleToggle_def attributeAgrees_setDarkTheme)

lemma attributeAgrees_hydrate: "attributeAgrees (snd (hydrate p))"
  by (simp add: hydrate_def darkThemeEffect_def Let_def)
    (rule attributeAgrees_setDarkTheme, simp add: attributeAgrees_def)

text \<open>
  C10. The blocking script sets \<open>data-theme\<close> to \<open>dark\<close> when the resolved mode is
  \<open>dark\<close> and leaves the attribute alone otherwise, so on the fresh document of a page
  load the attribute is \<open>dark\<close> if the mode is \<open>dark\<close> and absent if not. The mount makes
  the attribute agree with \<^verbatim>\<open>darkTheme\<close>, every toggle keeps the agreement, and a
  toggle to light removes the attribute: the value \<open>light\<close> is never written to it.
\<close>

theorem attribute_invariant:
  "attributes (snd (setInitialColorMode sig p)) ''data-theme'' =
     (if getInitialColorMode (localStorage p) sig = Inr ''dark'' then Some ''dark''
      else attributes p ''data-theme'') \<and>
   attributes (snd (setInitialColorMode sig (freshPage store))) ''data-theme'' =
     (if getInitialColorMode store sig = Inr ''dark'' then Some ''dark'' else None) \<and>
   attributeAgrees (snd (hydrate p)) \<and>
   (attributeAgrees p \<longrightarrow> attributeAgrees (snd (handleToggle b p))) \<and>
   (darkTheme p \<noteq> Some False \<longrightarrow>
      attributes (snd (handleToggle False p)) ''data-theme'' = None) \<and>
   (darkTheme p \<noteq> Some True \<longrightarrow>
      attributes (snd (handleToggle True p)) ''data-theme'' = Some ''dark'') \<and>
   attributeAgrees (visit sig store bs)"
proof -
  have a: "attributes (snd (setInitialColorMode sig p')) ''data-theme'' =
     (if getInitialColorMode (localStorage p') sig = Inr ''dark'' then Some ''dark''
      else attributes p' ''data-theme'')" for p'
    by (simp add: setInitialColorMode_def setProperty_def setAttribute_def Let_def
        split: sum.splits)
  have b: "attributes (snd (setInitialColorMode sig (freshPage store))) ''data-theme'' =
     (if getInitialColorMode store sig = Inr ''dark'' then Some ''dark'' else None)"
    by (simp add: a) (simp add: freshPage_def)
  have v: "attributeAgrees (visit sig store bs)"
    unfolding visit_def by (rule attributeAgrees_toggles) (rule attributeAgrees_hydrate)
  show ?thesis
    using a [of p] b v
    by (simp add: attributeAgrees_hydrate handleToggle_def attributeAgrees_setDarkTheme
        attributes_setDarkTheme)
qed

theorem attribute_invariant_witness:
  "attributeAgrees (freshPage (Available Map.empty)) \<and>
   attributeAgrees (snd (handleToggle True (freshPage (Available Map.empty)))) \<and>
   darkTheme (freshPage (Available Map.empty)) \<noteq> Some False \<and>
   attributes (snd (handleToggle False (freshPage (Available Map.empty)))) ''data-theme'' = None \<and>
   darkTheme (freshPage (Available Map.empty)) \<noteq> Some True \<and>
   attributes (snd (handleToggle True (freshPage (Available Map.empty)))) ''data-theme''
     = Some ''dark''"
  using attribute_invariant [of "QueryThrows" "freshPage (Available Map.empty)" Unavailable True "[]"]
  by (simp add: freshPage_def attributeAgrees_def)

end
